theory Spec2Isabelle
  imports
    Complex_Main
    "HOL-Library.Word"
    "HOL-Library.Multiset"
    "HOL-Library.Char_ord"
    "HOL-Library.List_Lexorder"
begin

section \<open>ETWtop: the session record and its derived values\<close>

text \<open>
  The program is one Go file, \<^verbatim>\<open>main.go\<close>. Go's \<^verbatim>\<open>uint32\<close> is a 32-bit word
  (\<open>+\<close>, \<open>-\<close> and \<open>*\<close> wrap around), \<^verbatim>\<open>uintptr\<close> a 64-bit word (the tool
  is built for 64-bit Windows), a Go \<^verbatim>\<open>string\<close> a list of bytes, compared
  bytewise and lexicographically by \<open><\<close>, which is the order of
  \<open>List_Lexorder\<close> over \<open>Char_ord\<close>. A \<^verbatim>\<open>time.Time\<close> is an integer
  count of nanoseconds.
\<close>

type_synonym uint32 = "32 word"
type_synonym uintptr = "64 word"
type_synonym timestamp = int

definition ERROR_SUCCESS :: uintptr where
  "ERROR_SUCCESS = 0"

definition ERROR_MORE_DATA :: uintptr where
  "ERROR_MORE_DATA = 234"

definition MAX_SESSION_NAME_LEN :: nat where
  "MAX_SESSION_NAME_LEN = 1024"

record ETWSession =
  Name :: string
  BufferSize :: uint32
  MinimumBuffers :: uint32
  MaximumBuffers :: uint32
  NumberOfBuffers :: uint32
  FreeBuffers :: uint32
  BuffersWritten :: uint32
  EventsLost :: uint32
  RealTimeBuffersLost :: uint32
  LogFileMode :: uint32
  LogFileName :: string
  Timestamp :: timestamp

text \<open>
  \<^verbatim>\<open>float64\<close> values are modelled by the real numbers they denote. A conversion
  \<^verbatim>\<open>float64(x)\<close> of a \<^verbatim>\<open>uint32\<close> is exact (every value below \<open>2^53\<close> is
  a \<^verbatim>\<open>float64\<close>), and so is a division by \<open>1024\<close>, a power of two. Every other
  \<^verbatim>\<open>float64\<close> operation rounds its exact result; the rounding is the parameter
  \<open>rnd\<close> of the functions below. IEEE 754 rounding to nearest is monotone and leaves
  every integer up to \<open>2^53\<close> as it is, which is all \<open>f64_rounding\<close> asks.
\<close>

definition f64_rounding :: "(real \<Rightarrow> real) \<Rightarrow> bool" where
  "f64_rounding rnd \<longleftrightarrow>
     (\<forall>x y. x \<le> y \<longrightarrow> rnd x \<le> rnd y) \<and> (\<forall>k::nat. k \<le> 2 ^ 53 \<longrightarrow> rnd (real k) = real k)"

text \<open>
  \<^verbatim>\<open>func (s *ETWSession) UtilizationPercent() float64\<close>: the subtraction is the
  \<^verbatim>\<open>uint32\<close> one, taken before the conversion.
\<close>

definition UtilizationPercent :: "(real \<Rightarrow> real) \<Rightarrow> ETWSession \<Rightarrow> real" where
  "UtilizationPercent rnd s =
     (if NumberOfBuffers s = 0 then 0
      else rnd (rnd (real (unat (NumberOfBuffers s - FreeBuffers s)) / real (unat (NumberOfBuffers s))) * 100))"

text \<open>
  \<^verbatim>\<open>func (s *ETWSession) TotalMemoryMB() float64\<close>: the product is the \<^verbatim>\<open>uint32\<close>
  one, taken before the conversion; conversion and division are exact.
\<close>

definition TotalMemoryMB :: "ETWSession \<Rightarrow> real" where
  "TotalMemoryMB s = real (unat (NumberOfBuffers s * BufferSize s)) / 1024"

text \<open>
  The derived values as the specification words them, over the counters read as
  natural numbers: \<open>(currentBuffers - freeBuffers) / currentBuffers * 100\<close>, \<open>0\<close> when
  \<open>currentBuffers = 0\<close>, in the same floating-point arithmetic; and
  \<open>currentBuffers * bufferSizeBytes\<close> reported in kilobytes.
\<close>

definition spec_utilizationPercent :: "(real \<Rightarrow> real) \<Rightarrow> nat \<Rightarrow> nat \<Rightarrow> real" where
  "spec_utilizationPercent rnd currentBuffers freeBuffers =
     (if currentBuffers = 0 then 0
      else rnd (rnd ((real currentBuffers - real freeBuffers) / real currentBuffers) * 100))"

definition spec_totalMemoryKB :: "nat \<Rightarrow> nat \<Rightarrow> real" where
  "spec_totalMemoryKB currentBuffers bufferSizeBytes = real (currentBuffers * bufferSizeBytes) / 1024"

text \<open>A session record with the given counters, every other field empty.\<close>

definition session :: "string \<Rightarrow> uint32 \<Rightarrow> uint32 \<Rightarrow> uint32 \<Rightarrow> uint32 \<Rightarrow> uint32 \<Rightarrow> ETWSession" where
  "session nm bsz cur free written lost =
     \<lparr>Name = nm, BufferSize = bsz, MinimumBuffers = 0, MaximumBuffers = 0,
      NumberOfBuffers = cur, FreeBuffers = free, BuffersWritten = written,
      EventsLost = lost, RealTimeBuffersLost = 0, LogFileMode = 0,
      LogFileName = [], Timestamp = 0\<rparr>"

section \<open>The native structures and the two-phase query\<close>

text \<open>
  \<^verbatim>\<open>unsafe.Sizeof\<close> follows Go's layout rule: every field at the next multiple of
  its alignment, the whole rounded up to the largest alignment. Fields are given as
  (size, alignment) in bytes, for a 64-bit target.
\<close>

definition align_up :: "nat \<Rightarrow> nat \<Rightarrow> nat" where
  "align_up a n = ((n + a - 1) div a) * a"

fun place :: "nat \<times> nat \<Rightarrow> nat \<times> nat \<Rightarrow> nat \<times> nat" where
  "place (off, al) (sz, a) = (align_up a off + sz, max al a)"

definition struct_layout :: "(nat \<times> nat) list \<Rightarrow> nat \<times> nat" where
  "struct_layout fs = (case foldl place (0, 1) fs of (off, al) \<Rightarrow> (align_up al off, al))"

definition layout_WNODE_HEADER :: "(nat \<times> nat) list" where
  "layout_WNODE_HEADER = [(4, 4), (4, 4), (8, 8), (8, 8), (16, 1), (4, 4), (4, 4)]"

definition layout_EVENT_TRACE_PROPERTIES :: "(nat \<times> nat) list" where
  "layout_EVENT_TRACE_PROPERTIES =
     [struct_layout layout_WNODE_HEADER,
      (4, 4), (4, 4), (4, 4), (4, 4), (4, 4), (4, 4), (4, 4), (4, 4),
      (4, 4), (4, 4), (4, 4), (4, 4), (4, 4), (4, 4),
      (8, 8), (4, 4), (4, 4)]"

definition sizeof_EVENT_TRACE_PROPERTIES :: nat where
  "sizeof_EVENT_TRACE_PROPERTIES = fst (struct_layout layout_EVENT_TRACE_PROPERTIES)"

record WNODE_HEADER =
  w_BufferSize :: uint32
  w_ProviderId :: uint32
  w_HistoricalContext :: "64 word"
  w_TimeStamp :: "64 word"
  w_Guid :: "8 word list"
  w_ClientContext :: uint32
  w_Flags :: uint32

record EVENT_TRACE_PROPERTIES =
  p_Wnode :: WNODE_HEADER
  p_BufferSize :: uint32
  p_MinimumBuffers :: uint32
  p_MaximumBuffers :: uint32
  p_MaximumFileSize :: uint32
  p_LogFileMode :: uint32
  p_FlushTimer :: uint32
  p_EnableFlags :: uint32
  p_AgeLimit :: "32 word"
  p_NumberOfBuffers :: uint32
  p_FreeBuffers :: uint32
  p_EventsLost :: uint32
  p_BuffersWritten :: uint32
  p_LogBuffersLost :: uint32
  p_RealTimeBuffersLost :: uint32
  p_LoggerThreadId :: uintptr
  p_LogFileNameOffset :: uint32
  p_LoggerNameOffset :: uint32

definition zero_WNODE_HEADER :: WNODE_HEADER where
  "zero_WNODE_HEADER =
     \<lparr>w_BufferSize = 0, w_ProviderId = 0, w_HistoricalContext = 0, w_TimeStamp = 0,
      w_Guid = replicate 16 0, w_ClientContext = 0, w_Flags = 0\<rparr>"

definition zero_EVENT_TRACE_PROPERTIES :: EVENT_TRACE_PROPERTIES where
  "zero_EVENT_TRACE_PROPERTIES =
     \<lparr>p_Wnode = zero_WNODE_HEADER, p_BufferSize = 0, p_MinimumBuffers = 0,
      p_MaximumBuffers = 0, p_MaximumFileSize = 0, p_LogFileMode = 0, p_FlushTimer = 0,
      p_EnableFlags = 0, p_AgeLimit = 0, p_NumberOfBuffers = 0, p_FreeBuffers = 0,
      p_EventsLost = 0, p_BuffersWritten = 0, p_LogBuffersLost = 0,
      p_RealTimeBuffersLost = 0, p_LoggerThreadId = 0, p_LogFileNameOffset = 0,
      p_LoggerNameOffset = 0\<rparr>"

text \<open>
  The byte slice \<^verbatim>\<open>buffer\<close> that holds the slots. An address is a byte offset
  from its start. \<open>props_at mem a\<close> is the header that a pointer to byte \<open>a\<close> reads as
  an \<^verbatim>\<open>EVENT_TRACE_PROPERTIES\<close>, and \<open>string_at mem a\<close> is the text that
  \<^verbatim>\<open>utf16PtrToString\<close> returns for a pointer to byte \<open>a\<close>: the UTF-16 code units
  from there to the first zero one, as a Go string. A slice fresh from \<^verbatim>\<open>make\<close>
  is all zero. The store is exact as long as the slots do not overlap, that is while
  the slot count times \<open>propertySize\<close> is below \<open>2^32\<close>, where the
  \<^verbatim>\<open>uint32\<close> index \<^verbatim>\<open>i*uint32(propertySize)\<close> does not wrap.
\<close>

record memory =
  props_at :: "nat \<Rightarrow> EVENT_TRACE_PROPERTIES"
  string_at :: "nat \<Rightarrow> string"

definition zero_memory :: memory where
  "zero_memory = \<lparr>props_at = (\<lambda>a. zero_EVENT_TRACE_PROPERTIES), string_at = (\<lambda>a. [])\<rparr>"

text \<open>
  The operating system, as far as one query sees it: what the sizing call of
  \<^verbatim>\<open>QueryAllTracesW\<close> returns and leaves in \<^verbatim>\<open>sessionCount\<close>, and what the
  data call makes of the pointer array, the count and the memory it is given: its
  return value, the count it writes back and the memory it leaves.
\<close>

record native =
  sizing :: "uintptr \<times> uint32"
  data :: "nat list \<Rightarrow> uint32 \<Rightarrow> memory \<Rightarrow> uintptr \<times> uint32 \<times> memory"

text \<open>
  The two \<^verbatim>\<open>fmt.Errorf\<close> results, each with the status code it prints, and the
  run-time panic of a slice index out of range.
\<close>

datatype error =
  GetSessionCountFailed uintptr
  | QuerySessionsFailed uintptr
  | IndexOutOfRange

definition propertySize :: nat where
  "propertySize = sizeof_EVENT_TRACE_PROPERTIES + MAX_SESSION_NAME_LEN * 2"

definition slot_address :: "uint32 \<Rightarrow> nat" where
  "slot_address i = unat (i * word_of_nat propertySize)"

text \<open>The body of the initialisation loop, for slot \<open>i\<close>.\<close>

definition init_slot :: "memory \<Rightarrow> uint32 \<Rightarrow> memory" where
  "init_slot mem i =
     (let a = slot_address i;
          props = props_at mem a;
          props = props\<lparr>p_Wnode := (p_Wnode props)\<lparr>w_BufferSize := word_of_nat propertySize\<rparr>\<rparr>;
          props = props\<lparr>p_LoggerNameOffset := word_of_nat sizeof_EVENT_TRACE_PROPERTIES\<rparr>;
          props = props\<lparr>p_LogFileNameOffset := p_LoggerNameOffset props + word_of_nat MAX_SESSION_NAME_LEN\<rparr>
      in mem\<lparr>props_at := (props_at mem)(a := props)\<rparr>)"

text \<open>
  The allocation phase: the loop \<^verbatim>\<open>for i := uint32(0); i < sessionCount; i++\<close>
  over a zeroed buffer, which \<^verbatim>\<open>make\<close> is taken to deliver. It returns the memory
  and \<^verbatim>\<open>sessionArray\<close>.
\<close>

definition allocate :: "uint32 \<Rightarrow> memory \<times> nat list" where
  "allocate sessionCount =
     (let slots = map word_of_nat [0..<unat sessionCount]
      in (foldl init_slot zero_memory slots, map slot_address slots))"

text \<open>The body of the decoding loop: the record built from the header at \<open>a\<close>.\<close>

definition decode_slot :: "memory \<Rightarrow> nat \<Rightarrow> timestamp \<Rightarrow> ETWSession" where
  "decode_slot mem a now =
     (let props = props_at mem a;
          sessionName = string_at mem (a + unat (p_LoggerNameOffset props));
          logFileName =
            (if p_LogFileNameOffset props > 0
             then string_at mem (a + unat (p_LogFileNameOffset props)) else [])
      in \<lparr>Name = sessionName, BufferSize = p_BufferSize props,
          MinimumBuffers = p_MinimumBuffers props, MaximumBuffers = p_MaximumBuffers props,
          NumberOfBuffers = p_NumberOfBuffers props, FreeBuffers = p_FreeBuffers props,
          BuffersWritten = p_BuffersWritten props, EventsLost = p_EventsLost props,
          RealTimeBuffersLost = p_RealTimeBuffersLost props, LogFileMode = p_LogFileMode props,
          LogFileName = logFileName, Timestamp = now\<rparr>)"

text \<open>
  The decoding loop over the indices below the count the data call wrote back.
  \<^verbatim>\<open>sessionArray[i]\<close> panics when \<open>i\<close> is not below the length of the slice.
  Each record takes its own reading of \<^verbatim>\<open>time.Now()\<close>; \<open>clock i\<close> is the reading
  taken while record \<open>i\<close> is built.
\<close>

fun decode_all ::
  "memory \<Rightarrow> nat list \<Rightarrow> (nat \<Rightarrow> timestamp) \<Rightarrow> nat list \<Rightarrow> ETWSession list \<Rightarrow> error + ETWSession list"
where
  "decode_all mem sessionArray clock [] sessions = Inr sessions"
| "decode_all mem sessionArray clock (i # rest) sessions =
     (if i < length sessionArray
      then decode_all mem sessionArray clock rest
             (sessions @ [decode_slot mem (sessionArray ! i) (clock i)])
      else Inl IndexOutOfRange)"

text \<open>
  \<^verbatim>\<open>sort.Slice\<close> of Go's standard library, by the \<^verbatim>\<open>less\<close> function it is given.
  The library promises a sorted permutation and no stability. It is modelled by the
  insertion sort the library runs on short slices: each element moves left past the
  elements it is \<^verbatim>\<open>less\<close> than.
\<close>

fun insert_less :: "('a \<Rightarrow> 'a \<Rightarrow> bool) \<Rightarrow> 'a \<Rightarrow> 'a list \<Rightarrow> 'a list" where
  "insert_less lt x [] = [x]"
| "insert_less lt x (y # ys) =
     (if lt x y then x # y # ys else y # insert_less lt x ys)"

definition sort_Slice :: "('a \<Rightarrow> 'a \<Rightarrow> bool) \<Rightarrow> 'a list \<Rightarrow> 'a list" where
  "sort_Slice lt xs = foldl (\<lambda>acc x. insert_less lt x acc) [] xs"

text \<open>
  \<^verbatim>\<open>func (m *ETWBufferMonitor) QueryAllSessions() ([]ETWSession, error)\<close>. The
  monitor's own field \<^verbatim>\<open>sessions\<close>, which the function also sets, is read nowhere
  in the program and is left out.
\<close>

definition QueryAllSessions :: "native \<Rightarrow> (nat \<Rightarrow> timestamp) \<Rightarrow> error + ETWSession list" where
  "QueryAllSessions os clock =
     (let (ret, sessionCount) = sizing os in
      if ret \<noteq> ERROR_MORE_DATA then Inl (GetSessionCountFailed ret)
      else if sessionCount = 0 then Inr []
      else
        let (mem, sessionArray) = allocate sessionCount;
            (ret, sessionCount, mem) = data os sessionArray sessionCount mem
        in if ret = ERROR_SUCCESS
           then (case decode_all mem sessionArray clock [0..<unat sessionCount] [] of
                   Inl e \<Rightarrow> Inl e
                 | Inr sessions \<Rightarrow> Inr (sort_Slice (\<lambda>a b. Name a < Name b) sessions))
           else Inl (QuerySessionsFailed ret))"

section \<open>The Bubble Tea model: update and view\<close>

text \<open>
  The messages \<^verbatim>\<open>Update\<close> tells apart (a key press, by the text of
  \<^verbatim>\<open>msg.String()\<close>; any message of another type is \<open>otherMsg\<close>) and the commands
  it returns: \<^verbatim>\<open>tea.Quit\<close>, \<^verbatim>\<open>tea.Tick\<close> and \<^verbatim>\<open>m.querySessionsCmd()\<close>. A
  \<^verbatim>\<open>tea.Batch\<close> is the list of its commands, \<^verbatim>\<open>nil\<close> the empty list.
\<close>

datatype msg =
  KeyMsg string
  | tickMsg timestamp
  | sessionsMsg "ETWSession list"
  | errMsg error
  | otherMsg

datatype cmd = Quit | Tick | QuerySessions

record model =
  sessions :: "ETWSession list"
  previousSessions :: "string \<rightharpoonup> ETWSession"
  lastUpdate :: timestamp
  intervalSeconds :: int
  showOnce :: bool
  err :: "error option"
  exiting :: bool

definition initialModel :: "int \<Rightarrow> bool \<Rightarrow> timestamp \<Rightarrow> model" where
  "initialModel interval once now =
     \<lparr>sessions = [], previousSessions = Map.empty, lastUpdate = now,
      intervalSeconds = interval, showOnce = once, err = None, exiting = False\<rparr>"



text \<open>
  The loop \<^verbatim>\<open>for _, session := range m.sessions { m.previousSessions[session.Name] = session }\<close>.
  The map is shared by every copy of the model, so the entries written stay.
\<close>

definition store_previous :: "(string \<rightharpoonup> ETWSession) \<Rightarrow> ETWSession list \<Rightarrow> (string \<rightharpoonup> ETWSession)" where
  "store_previous prev ss = foldl (\<lambda>p s. p(Name s \<mapsto> s)) prev ss"

text \<open>
  \<^verbatim>\<open>func (m model) Update(msg tea.Msg) (tea.Model, tea.Cmd)\<close>; \<open>now\<close> is the reading
  of \<^verbatim>\<open>time.Now()\<close> the \<^verbatim>\<open>sessionsMsg\<close> case takes.
\<close>

fun Update :: "model \<Rightarrow> msg \<Rightarrow> timestamp \<Rightarrow> model \<times> cmd list" where
  "Update m (KeyMsg k) now =
     (if k = ''q'' \<or> k = ''ctrl+c'' then (m\<lparr>exiting := True\<rparr>, [Quit]) else (m, []))"
| "Update m (tickMsg t) now =
     (if showOnce m then (m, []) else (m, [Tick, QuerySessions]))"
| "Update m (sessionsMsg new) now =
     (let m = m\<lparr>previousSessions := store_previous (previousSessions m) (sessions m)\<rparr>;
          m = m\<lparr>sessions := new\<rparr>;
          m = m\<lparr>lastUpdate := now\<rparr>
      in if showOnce m then (m, [Quit]) else (m, []))"
| "Update m (errMsg e) now = (m\<lparr>err := Some e\<rparr>, [])"
| "Update m otherMsg now = (m, [])"






definition hasChanges :: "model \<Rightarrow> ETWSession \<Rightarrow> bool" where
  "hasChanges m s =
     (case previousSessions m (Name s) of
        None \<Rightarrow> False
      | Some previousSession \<Rightarrow>
          NumberOfBuffers previousSession \<noteq> NumberOfBuffers s \<or>
          FreeBuffers previousSession \<noteq> FreeBuffers s \<or>
          EventsLost previousSession \<noteq> EventsLost s \<or>
          BuffersWritten previousSession \<noteq> BuffersWritten s)"








section \<open>The export\<close>







section \<open>The program run\<close>





section \<open>Predicates and a scenario for the proofs\<close>

text \<open>What the initialisation loop writes into a header.\<close>

definition initialised :: "EVENT_TRACE_PROPERTIES \<Rightarrow> bool" where
  "initialised props \<longleftrightarrow>
     w_BufferSize (p_Wnode props) = word_of_nat propertySize \<and>
     p_LoggerNameOffset props = word_of_nat sizeof_EVENT_TRACE_PROPERTIES \<and>
     p_LogFileNameOffset props =
       word_of_nat sizeof_EVENT_TRACE_PROPERTIES + word_of_nat MAX_SESSION_NAME_LEN"


text \<open>
  The end-to-end scenario of the specification: the sizing call reports two sessions,
  and the data call fills the two slots, the first with a session that lost no event
  and uses 2 of 20 buffers, the second with one that lost 5 events and uses 9 of 10.
  \<open>fill\<close> writes the counters into the header at \<open>a\<close> and the name where its name
  offset points.
\<close>

definition fill :: "memory \<Rightarrow> nat \<Rightarrow> string \<Rightarrow> uint32 \<Rightarrow> uint32 \<Rightarrow> uint32 \<Rightarrow> memory" where
  "fill mem a nm cur free lost =
     (let props = props_at mem a in
      mem\<lparr>props_at := (props_at mem)
             (a := props\<lparr>p_BufferSize := 64, p_NumberOfBuffers := cur,
                        p_FreeBuffers := free, p_EventsLost := lost\<rparr>),
          string_at := (string_at mem)(a + unat (p_LoggerNameOffset props) := nm)\<rparr>)"

definition scenario_os :: native where
  "scenario_os =
     \<lparr>sizing = (ERROR_MORE_DATA, 2),
      data = (\<lambda>sessionArray n mem.
        (ERROR_SUCCESS, 2,
         fill (fill mem (sessionArray ! 0) ''beta'' 20 18 0) (sessionArray ! 1) ''alpha'' 10 1 5))\<rparr>"

definition scenario_alpha :: "timestamp \<Rightarrow> ETWSession" where
  "scenario_alpha t = (session ''alpha'' 64 10 1 0 5)\<lparr>Timestamp := t\<rparr>"

definition scenario_beta :: "timestamp \<Rightarrow> ETWSession" where
  "scenario_beta t = (session ''beta'' 64 20 18 0 0)\<lparr>Timestamp := t\<rparr>"


text \<open>The model in continuous mode after the given snapshots have arrived, one by one.\<close>

definition after_polls :: "ETWSession list list \<Rightarrow> model" where
  "after_polls polls =
     foldl (\<lambda>m ss. fst (Update m (sessionsMsg ss) 0)) (initialModel 1 False 0) polls"

text \<open>An operating system whose sizing call answers with the given status and count.\<close>

definition sizing_os :: "uintptr \<Rightarrow> uint32 \<Rightarrow> native" where
  "sizing_os ret n = \<lparr>sizing = (ret, n), data = (\<lambda>sessionArray n mem. (ERROR_SUCCESS, n, mem))\<rparr>"

section \<open>Basic facts\<close>

lemma session_sel [simp]:
  "Name (session nm bsz cur free written lost) = nm"
  "BufferSize (session nm bsz cur free written lost) = bsz"
  "NumberOfBuffers (session nm bsz cur free written lost) = cur"
  "FreeBuffers (session nm bsz cur free written lost) = free"
  "BuffersWritten (session nm bsz cur free written lost) = written"
  "EventsLost (session nm bsz cur free written lost) = lost"
  by (simp_all add: session_def)

lemma f64_rounding_id: "f64_rounding (\<lambda>x. x)"
  by (simp add: f64_rounding_def)

subsection \<open>Sizes\<close>

lemma wnode_layout: "struct_layout layout_WNODE_HEADER = (48, 8)"
  by (simp add: layout_WNODE_HEADER_def struct_layout_def align_up_def)

lemma sizeof_val: "sizeof_EVENT_TRACE_PROPERTIES = 120"
  unfolding sizeof_EVENT_TRACE_PROPERTIES_def layout_EVENT_TRACE_PROPERTIES_def wnode_layout
  by (simp add: struct_layout_def align_up_def)

lemma propertySize_val: "propertySize = 2168"
  by (simp add: propertySize_def sizeof_val MAX_SESSION_NAME_LEN_def)

lemma upt_2: "[0..<2] = [0, 1]"
  by (simp add: numeral_2_eq_2)

subsection \<open>The derived values\<close>

lemma TotalMemoryMB_mod:
  "TotalMemoryMB s = real ((unat (NumberOfBuffers s) * unat (BufferSize s)) mod 2 ^ 32) / 1024"
  by (simp add: TotalMemoryMB_def unat_word_ariths)

lemma ratio_bounds:
  "(d::nat) \<le> n \<Longrightarrow> 0 < n \<Longrightarrow> 0 \<le> real d / real n \<and> real d / real n \<le> 1"
  by simp

lemma UtilizationPercent_range:
  assumes r: "f64_rounding rnd" and le: "FreeBuffers s \<le> NumberOfBuffers s"
  shows "0 \<le> UtilizationPercent rnd s \<and> UtilizationPercent rnd s \<le> 100"
proof (cases "NumberOfBuffers s = 0")
  case True
  then show ?thesis by (simp add: UtilizationPercent_def)
next
  case False
  let ?n = "unat (NumberOfBuffers s)"
  let ?d = "unat (NumberOfBuffers s - FreeBuffers s)"
  from r have mono: "\<And>x y. x \<le> y \<Longrightarrow> rnd x \<le> rnd y"
    and exact: "\<And>k::nat. k \<le> 2 ^ 53 \<Longrightarrow> rnd (real k) = real k"
    by (auto simp: f64_rounding_def)
  have r0: "rnd 0 = 0" using exact [of 0] by simp
  have r1: "rnd 1 = 1" using exact [of 1] by simp
  have r100: "rnd 100 = 100" using exact [of 100] by simp
  have n: "0 < ?n" using False by (simp add: unat_gt_0)
  have d: "?d \<le> ?n" using le by (simp add: unat_sub word_le_nat_alt)
  let ?q = "real ?d / real ?n"
  have "0 \<le> ?q" "?q \<le> 1" using ratio_bounds [OF d n] by blast+
  then have q: "0 \<le> rnd ?q" "rnd ?q \<le> 1"
    using mono [of 0 ?q] mono [of ?q 1] r0 r1 by simp_all
  then have "0 \<le> rnd ?q * 100" "rnd ?q * 100 \<le> 100" by simp_all
  then have "0 \<le> rnd (rnd ?q * 100)" "rnd (rnd ?q * 100) \<le> 100"
    using mono [of 0 "rnd ?q * 100"] mono [of "rnd ?q * 100" 100] r0 r100 by simp_all
  with False show ?thesis by (simp add: UtilizationPercent_def)
qed

lemma UtilizationPercent_as_spec:
  assumes "FreeBuffers s \<le> NumberOfBuffers s"
  shows "UtilizationPercent rnd s =
     spec_utilizationPercent rnd (unat (NumberOfBuffers s)) (unat (FreeBuffers s))"
  using assms
  by (simp add: UtilizationPercent_def spec_utilizationPercent_def unat_sub word_le_nat_alt
      unat_eq_0 of_nat_diff)

subsection \<open>The allocation loop\<close>

lemma init_slot_here: "initialised (props_at (init_slot mem i) (slot_address i))"
  by (simp add: init_slot_def Let_def initialised_def)

lemma init_slot_keeps:
  "initialised (props_at mem a) \<Longrightarrow> initialised (props_at (init_slot mem j) a)"
  by (simp add: init_slot_def Let_def initialised_def)

lemma foldl_init_slot:
  "i \<in> set slots \<Longrightarrow> initialised (props_at (foldl init_slot mem slots) (slot_address i))"
proof (induction slots arbitrary: i rule: rev_induct)
  case Nil
  then show ?case by simp
next
  case (snoc j slots)
  show ?case
  proof (cases "i = j")
    case True
    then show ?thesis by (simp add: init_slot_here)
  next
    case False
    with snoc.prems have "i \<in> set slots" by simp
    then show ?thesis by (simp add: snoc.IH init_slot_keeps)
  qed
qed

lemma allocate_slot:
  assumes "i < unat sessionCount"
  shows "initialised (props_at (fst (allocate sessionCount)) (snd (allocate sessionCount) ! i))"
proof -
  let ?slots = "map word_of_nat [0..<unat sessionCount] :: uint32 list"
  have "?slots ! i \<in> set ?slots" using assms by (intro nth_mem) simp
  then have "initialised (props_at (foldl init_slot zero_memory ?slots) (slot_address (?slots ! i)))"
    by (rule foldl_init_slot)
  then show ?thesis using assms by (simp add: allocate_def Let_def)
qed

subsection \<open>Decoding and sorting\<close>

lemma decode_all_Inl:
  "decode_all mem arr clock is acc = Inl e \<Longrightarrow> e = IndexOutOfRange"
  by (induction "is" arbitrary: acc) (auto split: if_splits)





lemma set_insert_less: "set (insert_less lt x ys) = insert x (set ys)"
  by (induction ys) auto

lemma sorted_insert_by_name:
  "sorted_wrt (\<lambda>a b. Name a \<le> Name b) ys \<Longrightarrow>
   sorted_wrt (\<lambda>a b. Name a \<le> Name b) (insert_less (\<lambda>a b. Name a < Name b) x ys)"
  by (induction ys) (auto simp: set_insert_less)

lemma sorted_foldl_by_name:
  "sorted_wrt (\<lambda>a b. Name a \<le> Name b) acc \<Longrightarrow>
   sorted_wrt (\<lambda>a b. Name a \<le> Name b)
     (foldl (\<lambda>acc x. insert_less (\<lambda>a b. Name a < Name b) x acc) acc xs)"
  by (induction xs arbitrary: acc) (auto simp: sorted_insert_by_name)

lemma sorted_sort_Slice:
  "sorted_wrt (\<lambda>a b. Name a \<le> Name b) (sort_Slice (\<lambda>a b. Name a < Name b) xs)"
  by (simp add: sort_Slice_def sorted_foldl_by_name)

lemma QueryAllSessions_Inr:
  assumes "QueryAllSessions os clock = Inr xs"
  obtains "xs = []"
  | mem arr n ys where "decode_all mem arr clock [0..<n] [] = Inr ys"
      and "xs = sort_Slice (\<lambda>a b. Name a < Name b) ys"
  using assms
  by (auto simp: QueryAllSessions_def split_beta Let_def split: if_splits sum.splits)

lemma scenario_result:
  "QueryAllSessions scenario_os clock = Inr [scenario_alpha (clock 1), scenario_beta (clock 0)]"
  by (simp add: QueryAllSessions_def scenario_os_def allocate_def Let_def slot_address_def
      propertySize_val sizeof_val MAX_SESSION_NAME_LEN_def upt_2 init_slot_def fill_def
      decode_slot_def zero_memory_def zero_EVENT_TRACE_PROPERTIES_def zero_WNODE_HEADER_def
      sort_Slice_def scenario_alpha_def scenario_beta_def session_def ERROR_SUCCESS_def
      ERROR_MORE_DATA_def)

subsection \<open>The previous sessions\<close>

lemma store_previous_snoc:
  "store_previous prev (ss @ [s]) = (store_previous prev ss)(Name s \<mapsto> s)"
  by (simp add: store_previous_def)

lemma store_previous_lookup:
  "store_previous prev ss n =
     (case filter (\<lambda>s. Name s = n) ss of [] \<Rightarrow> prev n | fs \<Rightarrow> Some (last fs))"
proof (induction ss rule: rev_induct)
  case Nil
  then show ?case by (simp add: store_previous_def)
next
  case (snoc s ss)
  then show ?case
    by (auto simp: store_previous_snoc split: list.splits)
qed

lemma dom_store_previous: "dom (store_previous prev ss) = dom prev \<union> Name ` set ss"
proof (induction ss rule: rev_induct)
  case Nil
  then show ?case by (simp add: store_previous_def)
next
  case (snoc s ss)
  have "dom (store_previous prev (ss @ [s])) = insert (Name s) (dom (store_previous prev ss))"
    by (simp add: store_previous_snoc)
  with snoc.IH show ?case by auto
qed

subsection \<open>Single-shot runs\<close>










subsection \<open>The view\<close>




section \<open>The claims\<close>

text \<open>
  C10. The total memory is computed from the 32-bit product: for every session record
  whose true product of buffer count and buffer size is at least \<open>2^32\<close>, the value
  reported is the product modulo \<open>2^32\<close>, divided by 1024, and not the true product
  divided by 1024.
\<close>

theorem TotalMemoryMB_wraps:
  assumes "2 ^ 32 \<le> unat (NumberOfBuffers s) * unat (BufferSize s)"
  shows "TotalMemoryMB s = real ((unat (NumberOfBuffers s) * unat (BufferSize s)) mod 2 ^ 32) / 1024
       \<and> TotalMemoryMB s \<noteq> spec_totalMemoryKB (unat (NumberOfBuffers s)) (unat (BufferSize s))"
proof -
  let ?p = "unat (NumberOfBuffers s) * unat (BufferSize s)"
  have "?p mod 2 ^ 32 < 2 ^ 32" by simp
  with assms have "?p mod 2 ^ 32 \<noteq> ?p" by linarith
  then have "real (?p mod 2 ^ 32) \<noteq> real ?p"
    by (simp only: of_nat_eq_iff not_False_eq_True)
  then have "real (?p mod 2 ^ 32) / 1024 \<noteq> real ?p / 1024" by simp
  then show ?thesis
    unfolding TotalMemoryMB_mod spec_totalMemoryKB_def by blast
qed

theorem TotalMemoryMB_wraps_witness:
  "TotalMemoryMB (session ''s'' 65536 65536 0 0 0) = 0
   \<and> TotalMemoryMB (session ''s'' 65536 65536 0 0 0) \<noteq> spec_totalMemoryKB 65536 65536"
  using TotalMemoryMB_wraps [of "session ''s'' 65536 65536 0 0 0"]
  by simp

text \<open>
  C9. Every snapshot that a successful query returns is sorted by session name,
  ascending: a record that precedes another has a name that is less or equal.
\<close>

theorem QueryAllSessions_sorted:
  assumes "QueryAllSessions os clock = Inr xs"
  shows "sorted_wrt (\<lambda>a b. Name a \<le> Name b) xs"
  using assms
proof (cases rule: QueryAllSessions_Inr)
  case 1
  then show ?thesis by simp
next
  case (2 mem arr n ys)
  then show ?thesis by (simp add: sorted_sort_Slice)
qed

theorem QueryAllSessions_sorted_witness:
  "QueryAllSessions scenario_os (\<lambda>i. 0) = Inr [scenario_alpha 0, scenario_beta 0] \<and>
   sorted_wrt (\<lambda>a b. Name a \<le> Name b) [scenario_alpha 0, scenario_beta 0]"
  using QueryAllSessions_sorted [OF scenario_result [of "\<lambda>i. 0"]] scenario_result [of "\<lambda>i. 0"]
  by simp

text \<open>
  C4, as the code has it. The sizing phase fails exactly when the status of the sizing
  call is not \<^verbatim>\<open>ERROR_MORE_DATA\<close>, whatever the count, and the error carries the
  raw status; with \<^verbatim>\<open>ERROR_MORE_DATA\<close> and a count of zero the result is the
  empty snapshot and no error.
\<close>

theorem QueryAllSessions_sizing:
  "(fst (sizing os) \<noteq> ERROR_MORE_DATA \<longrightarrow>
      QueryAllSessions os clock = Inl (GetSessionCountFailed (fst (sizing os)))) \<and>
   (sizing os = (ERROR_MORE_DATA, 0) \<longrightarrow> QueryAllSessions os clock = Inr []) \<and>
   (QueryAllSessions os clock = Inl (GetSessionCountFailed r) \<longleftrightarrow>
      fst (sizing os) \<noteq> ERROR_MORE_DATA \<and> r = fst (sizing os))"
proof (intro conjI impI)
  assume "fst (sizing os) \<noteq> ERROR_MORE_DATA"
  then show "QueryAllSessions os clock = Inl (GetSessionCountFailed (fst (sizing os)))"
    by (simp add: QueryAllSessions_def split_beta)
next
  assume "sizing os = (ERROR_MORE_DATA, 0)"
  then show "QueryAllSessions os clock = Inr []"
    by (simp add: QueryAllSessions_def)
next
  show "QueryAllSessions os clock = Inl (GetSessionCountFailed r) \<longleftrightarrow>
      fst (sizing os) \<noteq> ERROR_MORE_DATA \<and> r = fst (sizing os)"
    by (auto simp: QueryAllSessions_def split_beta Let_def split: sum.splits
        dest: decode_all_Inl)
qed

theorem QueryAllSessions_sizing_witness:
  "QueryAllSessions (sizing_os 5 3) (\<lambda>i. 0) = Inl (GetSessionCountFailed 5) \<and>
   QueryAllSessions (sizing_os ERROR_MORE_DATA 0) (\<lambda>i. 0) = Inr []"
  using QueryAllSessions_sizing [of "sizing_os 5 3" "\<lambda>i. 0" 5]
    QueryAllSessions_sizing [of "sizing_os ERROR_MORE_DATA 0" "\<lambda>i. 0" 0]
  by (simp add: sizing_os_def ERROR_MORE_DATA_def)

text \<open>
  C4 as stated fails: a sizing call that reports a count of zero with the status
  \<^verbatim>\<open>ERROR_SUCCESS\<close> ends in the error, since the status is tested first.
\<close>

theorem zero_count_error_counterexample:
  "snd (sizing (sizing_os ERROR_SUCCESS 0)) = 0 \<and>
   QueryAllSessions (sizing_os ERROR_SUCCESS 0) (\<lambda>i. 0) = Inl (GetSessionCountFailed ERROR_SUCCESS)"
  by (simp add: QueryAllSessions_def sizing_os_def ERROR_SUCCESS_def ERROR_MORE_DATA_def)




text \<open>
  C3, what the allocation phase does. Every slot's header gets a total buffer size of
  the header size plus \<open>MAX_SESSION_NAME_LEN * 2\<close> bytes, a name offset of the header
  size, and a log file name offset of the name offset plus \<open>MAX_SESSION_NAME_LEN\<close>
  bytes. So the log file name starts less than \<open>MAX_SESSION_NAME_LEN\<close> wide characters
  after the name, and the total is less than the header and two regions of
  \<open>MAX_SESSION_NAME_LEN\<close> wide characters.
\<close>

theorem allocate_text_regions:
  assumes "i < unat sessionCount"
  shows "(case allocate sessionCount of (mem, sessionArray) \<Rightarrow>
     let props = props_at mem (sessionArray ! i) in
       unat (w_BufferSize (p_Wnode props)) =
         sizeof_EVENT_TRACE_PROPERTIES + MAX_SESSION_NAME_LEN * 2 \<and>
       unat (p_LoggerNameOffset props) = sizeof_EVENT_TRACE_PROPERTIES \<and>
       unat (p_LogFileNameOffset props) = unat (p_LoggerNameOffset props) + MAX_SESSION_NAME_LEN \<and>
       unat (p_LogFileNameOffset props) < unat (p_LoggerNameOffset props) + MAX_SESSION_NAME_LEN * 2 \<and>
       unat (w_BufferSize (p_Wnode props)) <
         sizeof_EVENT_TRACE_PROPERTIES + 2 * (MAX_SESSION_NAME_LEN * 2))"
  using allocate_slot [OF assms]
  by (simp add: split_beta Let_def initialised_def propertySize_val sizeof_val
      MAX_SESSION_NAME_LEN_def)

theorem allocate_text_regions_witness:
  "(case allocate 1 of (mem, sessionArray) \<Rightarrow>
     unat (w_BufferSize (p_Wnode (props_at mem (sessionArray ! 0)))) = 2168 \<and>
     unat (p_LoggerNameOffset (props_at mem (sessionArray ! 0))) = 120 \<and>
     unat (p_LogFileNameOffset (props_at mem (sessionArray ! 0))) = 1144)"
  using allocate_text_regions [of 0 1]
  by (simp add: split_beta Let_def sizeof_val MAX_SESSION_NAME_LEN_def)

text \<open>
  C6, as the code has it. The utilization is exactly \<open>0\<close> when the buffer count is
  \<open>0\<close>; for every record whose free count is at most its buffer count it equals
  \<open>(currentBuffers - freeBuffers) / currentBuffers * 100\<close> and lies between \<open>0\<close> and
  \<open>100\<close>.
\<close>

theorem UtilizationPercent_spec:
  assumes "f64_rounding rnd"
  shows "(NumberOfBuffers s = 0 \<longrightarrow> UtilizationPercent rnd s = 0) \<and>
     (FreeBuffers s \<le> NumberOfBuffers s \<longrightarrow>
        UtilizationPercent rnd s =
          spec_utilizationPercent rnd (unat (NumberOfBuffers s)) (unat (FreeBuffers s)) \<and>
        0 \<le> UtilizationPercent rnd s \<and> UtilizationPercent rnd s \<le> 100)"
  using UtilizationPercent_range [OF assms] UtilizationPercent_as_spec
  by (simp add: UtilizationPercent_def)

theorem UtilizationPercent_spec_witness:
  "f64_rounding (\<lambda>x. x) \<and>
   UtilizationPercent (\<lambda>x. x) (session ''s'' 64 10 1 0 5) = 90 \<and>
   spec_utilizationPercent (\<lambda>x. x) 10 1 = 90 \<and>
   UtilizationPercent (\<lambda>x. x) (session ''s'' 64 0 0 0 0) = 0"
  using UtilizationPercent_spec [OF f64_rounding_id, of "session ''s'' 64 10 1 0 5"]
    UtilizationPercent_spec [OF f64_rounding_id, of "session ''s'' 64 0 0 0 0"]
  by (simp add: f64_rounding_id spec_utilizationPercent_def)

text \<open>
  C6 as stated fails: with one buffer and two free buffers the 32-bit difference
  wraps around to \<open>2^32 - 1\<close>, and the utilization is \<open>429496729500\<close>, not the
  \<open>-100\<close> of the formula. All numbers involved are integers below \<open>2^53\<close>, which no
  rounding changes.
\<close>

theorem UtilizationPercent_wrap_counterexample:
  "NumberOfBuffers (session ''s'' 64 1 2 0 0) \<noteq> 0 \<and>
   UtilizationPercent (\<lambda>x. x) (session ''s'' 64 1 2 0 0) = 429496729500 \<and>
   spec_utilizationPercent (\<lambda>x. x) 1 2 = - 100"
  by (simp add: UtilizationPercent_def spec_utilizationPercent_def
      unsigned_minus_1_eq_mask mask_eq_exp_minus_1)




text \<open>
  C7. A session of the new snapshot is flagged as changed if and only if the retained
  previous state has a record of the same name and one of the four watched counters
  (buffer count, free buffers, events lost, buffers written) differs between the two;
  a session with no record of its name in the previous state is never flagged.
\<close>

theorem hasChanges_iff:
  "(hasChanges m s \<longleftrightarrow>
      (\<exists>p. previousSessions m (Name s) = Some p \<and>
           (NumberOfBuffers p \<noteq> NumberOfBuffers s \<or> FreeBuffers p \<noteq> FreeBuffers s \<or>
            EventsLost p \<noteq> EventsLost s \<or> BuffersWritten p \<noteq> BuffersWritten s))) \<and>
   (previousSessions m (Name s) = None \<longrightarrow> \<not> hasChanges m s)"
  by (simp add: hasChanges_def split: option.splits)

theorem hasChanges_iff_witness:
  "\<not> hasChanges (after_polls [[session ''X'' 64 10 5 0 0], []]) (session ''X'' 64 10 5 0 0) \<and>
   hasChanges (after_polls [[session ''X'' 64 10 5 0 0], []]) (session ''X'' 64 10 3 0 0) \<and>
   \<not> hasChanges (after_polls [[session ''X'' 64 10 5 0 0], []]) (session ''Y'' 64 1 1 0 0)"
  using hasChanges_iff [of "after_polls [[session ''X'' 64 10 5 0 0], []]" "session ''X'' 64 10 5 0 0"]
    hasChanges_iff [of "after_polls [[session ''X'' 64 10 5 0 0], []]" "session ''X'' 64 10 3 0 0"]
    hasChanges_iff [of "after_polls [[session ''X'' 64 10 5 0 0], []]" "session ''Y'' 64 1 1 0 0"]
  by (simp add: after_polls_def initialModel_def store_previous_def Let_def)

text \<open>
  C1, as the code has it. When a snapshot arrives, the records of the snapshot of the
  poll before are written over the retained previous state: a name of that snapshot
  then maps to its record there (the last of that name), every other name keeps the
  entry it had, and no entry is removed. The new snapshot becomes the current one.
\<close>

theorem Update_sessionsMsg_previous:
  assumes "Update m (sessionsMsg new) now = (m', cmds)"
  shows "sessions m' = new \<and>
     (\<forall>n. previousSessions m' n =
        (case filter (\<lambda>s. Name s = n) (sessions m) of
           [] \<Rightarrow> previousSessions m n
         | fs \<Rightarrow> Some (last fs))) \<and>
     dom (previousSessions m') = dom (previousSessions m) \<union> Name ` set (sessions m)"
proof -
  from assms have s: "sessions m' = new"
    and p: "previousSessions m' = store_previous (previousSessions m) (sessions m)"
    by (auto simp: Let_def split: if_splits)
  show ?thesis
    unfolding s p by (simp add: store_previous_lookup dom_store_previous)
qed

theorem Update_sessionsMsg_previous_witness:
  "sessions (after_polls [[session ''A'' 64 10 5 0 0], [session ''B'' 64 10 5 0 0],
      [session ''C'' 64 10 5 0 0]]) = [session ''C'' 64 10 5 0 0] \<and>
   previousSessions (after_polls [[session ''A'' 64 10 5 0 0], [session ''B'' 64 10 5 0 0],
      [session ''C'' 64 10 5 0 0]]) ''B'' = Some (session ''B'' 64 10 5 0 0) \<and>
   previousSessions (after_polls [[session ''A'' 64 10 5 0 0], [session ''B'' 64 10 5 0 0],
      [session ''C'' 64 10 5 0 0]]) ''C'' = None"
  using Update_sessionsMsg_previous
    [of "after_polls [[session ''A'' 64 10 5 0 0], [session ''B'' 64 10 5 0 0]]"
        "[session ''C'' 64 10 5 0 0]" 0
        "after_polls [[session ''A'' 64 10 5 0 0], [session ''B'' 64 10 5 0 0],
           [session ''C'' 64 10 5 0 0]]" "[]"]
  by (simp add: after_polls_def initialModel_def store_previous_def Let_def)

text \<open>
  C1 as stated fails: after the snapshots \<open>[A]\<close>, \<open>[B]\<close> and \<open>[C]\<close> have arrived in
  continuous mode, the retained previous state still has the record of \<open>A\<close>, which
  is not in \<open>[B]\<close>, the snapshot of the poll before the last.
\<close>

theorem previous_outlives_poll_counterexample:
  "previousSessions (after_polls [[session ''A'' 64 10 5 0 0], [session ''B'' 64 10 5 0 0],
      [session ''C'' 64 10 5 0 0]]) ''A'' = Some (session ''A'' 64 10 5 0 0) \<and>
   sessions (after_polls [[session ''A'' 64 10 5 0 0], [session ''B'' 64 10 5 0 0]]) =
     [session ''B'' 64 10 5 0 0] \<and>
   ''A'' \<notin> Name ` set [session ''B'' 64 10 5 0 0]"
  by (simp add: after_polls_def initialModel_def store_previous_def Let_def)



end
